theory Spec2Isabelle
  imports
    Complex_Main
    "HOL-Library.Char_ord"
    "HOL-Library.List_Lexorder"
    "HOL-Library.Option_ord"
    "HOL-Library.Multiset"
begin

section \<open>Values that cross the HTTP boundary\<close>

text \<open>
  \<^verbatim>\<open>server.ts\<close> reads every request field out of \<^verbatim>\<open>req.body\<close>, the JSON
  object parsed by \<^verbatim>\<open>express.json()\<close>; the handlers are typed \<^verbatim>\<open>any\<close>, so a field
  may be absent or hold any JSON value: \<^verbatim>\<open>null\<close>, a boolean, a number, a string, an array
  or an object. \<open>JUndefined\<close> is what destructuring yields for an absent field.
  Strings are byte sequences (UTF-8), which is what the storage engine compares.
\<close>

datatype jsval =
    JUndefined | JNull | JBool bool | JNum rat | JStr string
  | JArr "jsval list" | JObj "(string \<times> jsval) list"

text \<open>
  JavaScript truthiness, as used by \<^verbatim>\<open>!x\<close>, \<^verbatim>\<open>x || d\<close> and \<^verbatim>\<open>x ? a : b\<close>. Every array and
  every object is truthy, the empty ones too.
\<close>

fun truthy :: "jsval \<Rightarrow> bool" where
  "truthy JUndefined = False"
| "truthy JNull = False"
| "truthy (JBool b) = b"
| "truthy (JNum r) = (r \<noteq> 0)"
| "truthy (JStr s) = (s \<noteq> [])"
| "truthy (JArr xs) = True"
| "truthy (JObj kvs) = True"

fun js_typeof :: "jsval \<Rightarrow> string" where
  "js_typeof JUndefined = ''undefined''"
| "js_typeof JNull = ''object''"
| "js_typeof (JBool b) = ''boolean''"
| "js_typeof (JNum r) = ''number''"
| "js_typeof (JStr s) = ''string''"
| "js_typeof (JArr xs) = ''object''"
| "js_typeof (JObj kvs) = ''object''"

text \<open>\<^verbatim>\<open>x || d\<close>\<close>

definition js_or :: "jsval \<Rightarrow> jsval \<Rightarrow> jsval" where
  "js_or x d = (if truthy x then x else d)"

text \<open>\<^verbatim>\<open>s.includes(sub)\<close> on strings.\<close>

fun str_includes :: "string \<Rightarrow> string \<Rightarrow> bool" where
  "str_includes [] sub = (sub = [])"
| "str_includes (c # cs) sub = (take (length sub) (c # cs) = sub \<or> str_includes cs sub)"

type_synonym body = "string \<Rightarrow> jsval"

record request =
  authorization :: "string option"   \<comment> \<open>\<^verbatim>\<open>req.headers.authorization\<close>\<close>
  session_token :: "string option"   \<comment> \<open>\<^verbatim>\<open>req.session?.token\<close>\<close>
  body :: body                       \<comment> \<open>\<^verbatim>\<open>req.body\<close>, field by field\<close>
  params_id :: string                \<comment> \<open>\<^verbatim>\<open>req.params.id\<close>\<close>

section \<open>Errors and responses\<close>

text \<open>
  An exception is a value. \<open>SqliteError\<close> is what the storage engine raises on a
  constraint violation, \<open>TypeError\<close> and \<open>RangeError\<close> what its binder raises on a value
  it cannot bind or on a wrong number of values, \<open>Error\<close> what the password library
  raises on a non-string argument. Each carries its \<^verbatim>\<open>message\<close>.
\<close>

datatype exn = SqliteError string | TypeError string | RangeError string | Error string

fun message :: "exn \<Rightarrow> string" where
  "message (SqliteError m) = m"
| "message (TypeError m) = m"
| "message (RangeError m) = m"
| "message (Error m) = m"

record 'c task =
  task_id :: "string option"         \<comment> \<open>\<^verbatim>\<open>id TEXT PRIMARY KEY\<close>\<close>
  userId :: "string option"          \<comment> \<open>\<^verbatim>\<open>userId TEXT\<close>, references \<^verbatim>\<open>users(id)\<close>\<close>
  task_text :: string                \<comment> \<open>\<^verbatim>\<open>text TEXT NOT NULL\<close>\<close>
  completed :: 'c                    \<comment> \<open>\<^verbatim>\<open>completed INTEGER DEFAULT 0\<close>\<close>
  priority :: "string option"
  dueDate :: "string option"
  googleEventId :: "string option"
  reminderType :: "string option"
  reminderTiming :: "string option"
  contactInfo :: "string option"

text \<open>
  A stored row is an \<open>int task\<close> (the flag is the integer 0 or 1); a listed task is a
  \<open>bool task\<close>: \<^verbatim>\<open>{ ...t, completed: !!t.completed }\<close>.
\<close>

definition task_json :: "int task \<Rightarrow> bool task" where
  "task_json t =
     \<lparr>task_id = task_id t, userId = userId t, task_text = task_text t,
      completed = (completed t \<noteq> 0), priority = priority t, dueDate = dueDate t,
      googleEventId = googleEventId t, reminderType = reminderType t,
      reminderTiming = reminderTiming t, contactInfo = contactInfo t\<rparr>"

datatype payload =
    ErrorBody string                 \<comment> \<open>\<^verbatim>\<open>{ error }\<close>\<close>
  | SuccessBody                      \<comment> \<open>\<^verbatim>\<open>{ success: true }\<close>\<close>
  | AuthBody string string           \<comment> \<open>\<^verbatim>\<open>{ success: true, userId, token }\<close>\<close>
  | TasksBody "bool task list"       \<comment> \<open>the JSON array of tasks\<close>

text \<open>
  What a handler does with a request: it answers with a status and a JSON body, or an
  exception leaves it uncaught.
\<close>

datatype outcome = Responded nat payload | Threw exn

text \<open>The user-facing messages (Portuguese; the accented letters are UTF-8 bytes).\<close>

definition msg_fields_required :: string where
  "msg_fields_required =
     ''Todos os campos s'' @ [CHR 0xC3, CHR 0xA3] @ ''o obrigat'' @ [CHR 0xC3, CHR 0xB3] @ ''rios''"

definition msg_email_taken :: string where
  "msg_email_taken = ''Email j'' @ [CHR 0xC3, CHR 0xA1] @ '' cadastrado''"

definition msg_bad_credentials :: string where
  "msg_bad_credentials = ''Credenciais inv'' @ [CHR 0xC3, CHR 0xA1] @ ''lidas''"

definition msg_create_user :: string where
  "msg_create_user = ''Erro ao criar usu'' @ [CHR 0xC3, CHR 0xA1] @ ''rio: ''"

section \<open>The libraries the server calls\<close>

text \<open>
  The server delegates password hashing, token signing and number formatting to
  libraries whose code is not part of the repository. They are parameters of the model:
  \<^item> \<open>bcrypt_hash salt pw\<close>: \<^verbatim>\<open>bcrypt.hash(pw, 10)\<close> for the salt the library drew;
  \<^item> \<open>bcrypt_compare pw h\<close>: \<^verbatim>\<open>bcrypt.compare(pw, h)\<close> on two strings;
  \<^item> \<open>jwt_sign iat uid\<close>: \<^verbatim>\<open>jwt.sign({ userId: uid }, JWT_SECRET)\<close> issued at time \<open>iat\<close>;
  \<^item> \<open>jwt_verify tok\<close>: the \<^verbatim>\<open>userId\<close> of \<^verbatim>\<open>jwt.verify(tok, JWT_SECRET)\<close>, or \<open>None\<close> when
    it throws;
  \<^item> \<open>real_text r\<close>: the text the storage engine gives a number placed in a \<^verbatim>\<open>TEXT\<close> column.
\<close>

record libs =
  bcrypt_hash :: "string \<Rightarrow> string \<Rightarrow> string"
  bcrypt_compare :: "string \<Rightarrow> string \<Rightarrow> bool"
  jwt_sign :: "nat \<Rightarrow> string \<Rightarrow> string"
  jwt_verify :: "string \<Rightarrow> string option"
  real_text :: "rat \<Rightarrow> string"

text \<open>
  What the two libraries promise: a password matches every hash made from it, and a
  token signed for a user id verifies to that id.
\<close>

definition libs_sound :: "libs \<Rightarrow> bool" where
  "libs_sound L \<longleftrightarrow>
     (\<forall>s p. bcrypt_compare L p (bcrypt_hash L s p)) \<and>
     (\<forall>t u. jwt_verify L (jwt_sign L t u) = Some u)"

text \<open>What a handler draws from its environment while it runs.\<close>

record entropy =
  random_id :: string    \<comment> \<open>\<^verbatim>\<open>Math.random().toString(36).substring(2, 15)\<close>\<close>
  salt :: string         \<comment> \<open>the salt \<^verbatim>\<open>bcrypt.hash\<close> generates\<close>
  now :: nat             \<comment> \<open>the clock read by \<^verbatim>\<open>jwt.sign\<close>\<close>

text \<open>
  \<^verbatim>\<open>bcrypt.hash(s, 10)\<close> and \<^verbatim>\<open>bcrypt.compare(s, hash)\<close> reject (the awaited promise
  throws) unless \<open>s\<close> is a string.
\<close>

definition bcrypt_hash_js :: "libs \<Rightarrow> string \<Rightarrow> jsval \<Rightarrow> exn + string" where
  "bcrypt_hash_js L slt s =
     (case s of
        JStr p \<Rightarrow> Inr (bcrypt_hash L slt p)
      | _ \<Rightarrow> Inl (Error (''Illegal arguments: '' @ js_typeof s @ '', number'')))"

definition bcrypt_compare_js :: "libs \<Rightarrow> jsval \<Rightarrow> string \<Rightarrow> exn + bool" where
  "bcrypt_compare_js L s h =
     (case s of
        JStr p \<Rightarrow> Inr (bcrypt_compare L p h)
      | _ \<Rightarrow> Inl (Error (''Illegal arguments: '' @ js_typeof s @ '', string'')))"

section \<open>The store\<close>

text \<open>
  Two tables, each a list of rows in insertion order. A \<^verbatim>\<open>TEXT\<close> column that may be
  \<^verbatim>\<open>NULL\<close> is a \<open>string option\<close>.
\<close>

record user_row =
  user_id :: string                  \<comment> \<open>\<^verbatim>\<open>id TEXT PRIMARY KEY\<close>\<close>
  email :: string                    \<comment> \<open>\<^verbatim>\<open>email TEXT UNIQUE NOT NULL\<close>\<close>
  password :: string                 \<comment> \<open>\<^verbatim>\<open>password TEXT NOT NULL\<close>\<close>
  name :: "string option"
  isPremium :: int                   \<comment> \<open>\<^verbatim>\<open>INTEGER DEFAULT 0\<close>\<close>
  brandName :: "string option"
  logoUrl :: "string option"
  primaryColor :: "string option"    \<comment> \<open>\<^verbatim>\<open>TEXT DEFAULT '#059669'\<close>\<close>
  customDomain :: "string option"

record db =
  users :: "user_row list"
  tasks :: "int task list"

text \<open>
  Binding one JavaScript value to a statement parameter that meets a \<^verbatim>\<open>TEXT\<close> column:
  \<^verbatim>\<open>null\<close> and \<^verbatim>\<open>undefined\<close> bind \<^verbatim>\<open>NULL\<close>, a string binds itself, a number is stored as
  its text, and a boolean, an array or an object is refused by the binder.
\<close>

definition msg_bind :: string where
  "msg_bind = ''SQLite3 can only bind numbers, strings, bigints, buffers, and null''"

definition msg_too_many :: string where
  "msg_too_many = ''Too many parameter values were provided''"

definition msg_too_few :: string where
  "msg_too_few = ''Too few parameter values were provided''"

definition msg_two_objects :: string where
  "msg_two_objects = ''You cannot specify named parameters in two different objects''"

fun bind_value :: "libs \<Rightarrow> jsval \<Rightarrow> exn + string option" where
  "bind_value L JUndefined = Inr None"
| "bind_value L JNull = Inr None"
| "bind_value L (JStr s) = Inr (Some s)"
| "bind_value L (JNum r) = Inr (Some (real_text L r))"
| "bind_value L (JBool b) = Inl (TypeError msg_bind)"
| "bind_value L (JArr xs) = Inl (TypeError msg_bind)"
| "bind_value L (JObj kvs) = Inl (TypeError msg_bind)"

text \<open>
  Binding the arguments of \<^verbatim>\<open>.run(...)\<close>, \<^verbatim>\<open>.get(...)\<close> or \<^verbatim>\<open>.all(...)\<close> to the \<open>n\<close>
  placeholders \<^verbatim>\<open>?\<close> of a statement. The driver walks the arguments from left to right
  and gives each value the next free placeholder. An argument that is an array is not
  one value: its elements are bound one after the other, each to the next placeholder.
  An argument that is an object stands for named parameters, of which these statements
  have none, so it binds nothing; a second object is refused. A value past the last
  placeholder, or placeholders left over at the end, raise a \<open>RangeError\<close>.
  \<open>acc\<close> holds the values bound so far, \<open>obj\<close> tells whether an object was seen.
\<close>

fun bind_array :: "libs \<Rightarrow> nat \<Rightarrow> jsval list \<Rightarrow> string option list \<Rightarrow> exn + string option list" where
  "bind_array L n [] acc = Inr acc"
| "bind_array L n (v # vs) acc =
     (case bind_value L v of
        Inl e \<Rightarrow> Inl e
      | Inr x \<Rightarrow> if n \<le> length acc then Inl (RangeError msg_too_many)
                 else bind_array L n vs (acc @ [x]))"

fun bind_params ::
  "libs \<Rightarrow> nat \<Rightarrow> jsval list \<Rightarrow> bool \<Rightarrow> string option list \<Rightarrow> exn + string option list" where
  "bind_params L n [] obj acc =
     (if length acc < n then Inl (RangeError msg_too_few) else Inr acc)"
| "bind_params L n (JArr xs # args) obj acc =
     (case bind_array L n xs acc of
        Inl e \<Rightarrow> Inl e
      | Inr acc' \<Rightarrow> bind_params L n args obj acc')"
| "bind_params L n (JObj kvs # args) obj acc =
     (if obj then Inl (TypeError msg_two_objects) else bind_params L n args True acc)"
| "bind_params L n (v # args) obj acc =
     (case bind_value L v of
        Inl e \<Rightarrow> Inl e
      | Inr x \<Rightarrow> if n \<le> length acc then Inl (RangeError msg_too_many)
                 else bind_params L n args obj (acc @ [x]))"

definition bind_args :: "libs \<Rightarrow> nat \<Rightarrow> jsval list \<Rightarrow> exn + string option list" where
  "bind_args L n args = bind_params L n args False []"

record result =
  reply :: outcome
  store :: db
  session :: "string option"

section \<open>The authentication middleware\<close>

text \<open>
  \<^verbatim>\<open>const token = authHeader?.startsWith('Bearer ') ? authHeader.substring(7)
                                                    : req.session?.token;\<close>
\<close>

definition token_of :: "request \<Rightarrow> string option" where
  "token_of req =
     (case authorization req of
        Some h \<Rightarrow> if take 7 h = ''Bearer '' then Some (drop 7 h) else session_token req
      | None \<Rightarrow> session_token req)"

text \<open>
  \<open>authenticate\<close> either answers the request itself (\<open>Inl\<close>) or calls \<^verbatim>\<open>next()\<close> with
  \<^verbatim>\<open>req.userId\<close> set (\<open>Inr\<close>). \<^verbatim>\<open>!token\<close> holds for an absent token and for the empty
  string.
\<close>

definition authenticate :: "libs \<Rightarrow> request \<Rightarrow> outcome + string" where
  "authenticate L req =
     (case token_of req of
        None \<Rightarrow> Inl (Responded 401 (ErrorBody ''Unauthorized''))
      | Some tok \<Rightarrow>
          if tok = [] then Inl (Responded 401 (ErrorBody ''Unauthorized''))
          else (case jwt_verify L tok of
                  Some uid \<Rightarrow> Inr uid
                | None \<Rightarrow> Inl (Responded 401 (ErrorBody ''Invalid token''))))"

section \<open>Registration and login\<close>

text \<open>
  \<^verbatim>\<open>INSERT INTO users (id, name, email, password) VALUES (?, ?, ?, ?)\<close>, run with
  \<^verbatim>\<open>.run(id, name, email, hashedPassword)\<close>. The binder distributes the arguments over
  the four placeholders first; the engine then checks \<^verbatim>\<open>NOT NULL\<close> on \<^verbatim>\<open>email\<close>, the
  primary key on \<^verbatim>\<open>id\<close> and uniqueness of \<^verbatim>\<open>email\<close>. The columns the statement does not
  name take their declared defaults. The first argument and the last are strings, and
  when the binding succeeds they are the first and the fourth value; the last case of
  the definition is therefore never taken.
\<close>

definition insert_user :: "libs \<Rightarrow> db \<Rightarrow> string \<Rightarrow> jsval \<Rightarrow> jsval \<Rightarrow> string \<Rightarrow> exn + db" where
  "insert_user L D uid nm em hashed =
     (case bind_args L 4 [JStr uid, nm, em, JStr hashed] of
        Inl e \<Rightarrow> Inl e
      | Inr [Some i, n, em', Some pw] \<Rightarrow>
          (case em' of
             None \<Rightarrow> Inl (SqliteError ''NOT NULL constraint failed: users.email'')
           | Some m \<Rightarrow>
               if i \<in> set (map user_id (users D))
               then Inl (SqliteError ''UNIQUE constraint failed: users.id'')
               else if m \<in> set (map email (users D))
               then Inl (SqliteError ''UNIQUE constraint failed: users.email'')
               else Inr (D\<lparr>users := users D @
                      [\<lparr>user_id = i, email = m, password = pw, name = n, isPremium = 0,
                        brandName = None, logoUrl = None, primaryColor = Some ''#059669'',
                        customDomain = None\<rparr>]\<rparr>))
      | Inr _ \<Rightarrow> Inl (SqliteError ''NOT NULL constraint failed: users.password''))"

text \<open>The \<^verbatim>\<open>try\<close> block of \<^verbatim>\<open>POST /api/auth/register\<close>.\<close>

definition register_try :: "libs \<Rightarrow> entropy \<Rightarrow> request \<Rightarrow> db \<Rightarrow> exn + result" where
  "register_try L E req D =
     (case bcrypt_hash_js L (salt E) (body req ''password'') of
        Inl e \<Rightarrow> Inl e
      | Inr hashedPassword \<Rightarrow>
     (case insert_user L D (random_id E) (body req ''name'') (body req ''email'') hashedPassword of
        Inl e \<Rightarrow> Inl e
      | Inr D' \<Rightarrow>
          let token = jwt_sign L (now E) (random_id E)
          in Inr \<lparr>reply = Responded 200 (AuthBody (random_id E) token),
                  store = D', session = Some token\<rparr>))"

text \<open>Its \<^verbatim>\<open>catch\<close> block.\<close>

definition register_catch :: "exn \<Rightarrow> outcome" where
  "register_catch err =
     (if message err \<noteq> [] \<and> str_includes (message err) ''UNIQUE constraint failed''
      then Responded 400 (ErrorBody msg_email_taken)
      else Responded 500 (ErrorBody (msg_create_user @
             (if message err \<noteq> [] then message err else ''Erro desconhecido''))))"

definition register :: "libs \<Rightarrow> entropy \<Rightarrow> request \<Rightarrow> db \<Rightarrow> result" where
  "register L E req D =
     (if \<not> truthy (body req ''email'') \<or> \<not> truthy (body req ''password'')
         \<or> \<not> truthy (body req ''name'')
      then \<lparr>reply = Responded 400 (ErrorBody msg_fields_required),
            store = D, session = session_token req\<rparr>
      else (case register_try L E req D of
              Inr r \<Rightarrow> r
            | Inl err \<Rightarrow> \<lparr>reply = register_catch err, store = D, session = session_token req\<rparr>))"

text \<open>
  \<^verbatim>\<open>db.prepare("SELECT * FROM users WHERE email = ?").get(email)\<close>: the first row whose
  email equals the bound value; \<^verbatim>\<open>NULL\<close> equals nothing. A successful binding of one
  placeholder yields one value, so the last case is never taken.
\<close>

definition user_by_email :: "libs \<Rightarrow> db \<Rightarrow> jsval \<Rightarrow> exn + user_row option" where
  "user_by_email L D em =
     (case bind_args L 1 [em] of
        Inl e \<Rightarrow> Inl e
      | Inr [v] \<Rightarrow> Inr (find (\<lambda>u. v = Some (email u)) (users D))
      | Inr _ \<Rightarrow> Inr None)"

text \<open>
  \<^verbatim>\<open>POST /api/auth/login\<close> has no \<^verbatim>\<open>try\<close>: an exception of the lookup or of
  \<^verbatim>\<open>bcrypt.compare\<close> leaves the handler. \<^verbatim>\<open>!user || !(await bcrypt.compare(...))\<close>
  compares only when a user was found.
\<close>

definition login :: "libs \<Rightarrow> entropy \<Rightarrow> request \<Rightarrow> db \<Rightarrow> result" where
  "login L E req D =
     (case user_by_email L D (body req ''email'') of
        Inl e \<Rightarrow> \<lparr>reply = Threw e, store = D, session = session_token req\<rparr>
      | Inr None \<Rightarrow>
          \<lparr>reply = Responded 401 (ErrorBody msg_bad_credentials),
           store = D, session = session_token req\<rparr>
      | Inr (Some user) \<Rightarrow>
          (case bcrypt_compare_js L (body req ''password'') (password user) of
             Inl e \<Rightarrow> \<lparr>reply = Threw e, store = D, session = session_token req\<rparr>
           | Inr False \<Rightarrow>
               \<lparr>reply = Responded 401 (ErrorBody msg_bad_credentials),
                store = D, session = session_token req\<rparr>
           | Inr True \<Rightarrow>
               let token = jwt_sign L (now E) (user_id user)
               in \<lparr>reply = Responded 200 (AuthBody (user_id user) token),
                   store = D, session = Some token\<rparr>))"

section \<open>The task endpoints\<close>

text \<open>
  \<^verbatim>\<open>SELECT * FROM tasks WHERE userId = ? ORDER BY dueDate ASC\<close>. The engine compares
  text byte by byte and puts \<^verbatim>\<open>NULL\<close> before every text in ascending order: that is
  the order of \<open>string option\<close>, with \<open>None\<close> least. \<open>sort_key\<close> keeps rows of equal key
  in table order.
\<close>

definition select_tasks :: "db \<Rightarrow> string \<Rightarrow> int task list" where
  "select_tasks D uid = sort_key dueDate (filter (\<lambda>t. userId t = Some uid) (tasks D))"

definition get_tasks :: "libs \<Rightarrow> request \<Rightarrow> db \<Rightarrow> result" where
  "get_tasks L req D =
     (case authenticate L req of
        Inl r \<Rightarrow> \<lparr>reply = r, store = D, session = session_token req\<rparr>
      | Inr uid \<Rightarrow>
          \<lparr>reply = Responded 200 (TasksBody (map task_json (select_tasks D uid))),
           store = D, session = session_token req\<rparr>)"

text \<open>
  \<^verbatim>\<open>INSERT INTO tasks (id, userId, text, priority, dueDate, googleEventId,
  reminderType, reminderTiming, contactInfo) VALUES (?, ?, ?, ?, ?, ?, ?, ?, ?)\<close>, run with
  \<^verbatim>\<open>.run(id, req.userId, text, priority, dueDate, googleEventId, reminderType || 'none',
  reminderTiming || '1h', contactInfo || '')\<close>.
  The binder distributes the arguments over the nine placeholders, and the nine values
  it yields go to the nine columns in order. When every body field is a scalar, each
  column gets the argument written for it and \<^verbatim>\<open>userId\<close> gets \<^verbatim>\<open>req.userId\<close>; when a
  field is an array, the arguments after it land in other columns.
  Then \<^verbatim>\<open>text\<close> must not be \<^verbatim>\<open>NULL\<close>, a non-\<^verbatim>\<open>NULL\<close> \<^verbatim>\<open>id\<close> must be new, and a
  non-\<^verbatim>\<open>NULL\<close> \<^verbatim>\<open>userId\<close> must name a user (the table declares
  \<^verbatim>\<open>FOREIGN KEY(userId) REFERENCES users(id)\<close>, and the engine bundled with the driver
  enforces foreign keys). \<^verbatim>\<open>completed\<close> is not among the columns and takes its
  default 0. A \<^verbatim>\<open>NULL\<close> id is accepted: the primary key is a \<^verbatim>\<open>TEXT\<close> column without
  \<^verbatim>\<open>NOT NULL\<close>. A successful binding yields nine values, so the last case of the
  definition is never taken.
\<close>

definition insert_task :: "libs \<Rightarrow> db \<Rightarrow> string \<Rightarrow> body \<Rightarrow> exn + db" where
  "insert_task L D uid b =
     (case bind_args L 9
             [b ''id'', JStr uid, b ''text'', b ''priority'', b ''dueDate'', b ''googleEventId'',
              js_or (b ''reminderType'') (JStr ''none''),
              js_or (b ''reminderTiming'') (JStr ''1h''),
              js_or (b ''contactInfo'') (JStr [])] of
        Inl e \<Rightarrow> Inl e
      | Inr [i, u, t, p, d, g, rt, tm, c] \<Rightarrow>
          (case t of
             None \<Rightarrow> Inl (SqliteError ''NOT NULL constraint failed: tasks.text'')
           | Some txt \<Rightarrow>
               if i \<noteq> None \<and> i \<in> set (map task_id (tasks D))
               then Inl (SqliteError ''UNIQUE constraint failed: tasks.id'')
               else if u \<noteq> None \<and> u \<notin> set (map (\<lambda>r. Some (user_id r)) (users D))
               then Inl (SqliteError ''FOREIGN KEY constraint failed'')
               else Inr (D\<lparr>tasks := tasks D @
                      [\<lparr>task_id = i, userId = u, task_text = txt, completed = 0,
                        priority = p, dueDate = d, googleEventId = g, reminderType = rt,
                        reminderTiming = tm, contactInfo = c\<rparr>]\<rparr>))
      | Inr _ \<Rightarrow> Inl (RangeError msg_too_few))"

text \<open>\<^verbatim>\<open>POST /api/tasks\<close>: the statement runs outside any \<^verbatim>\<open>try\<close>.\<close>

definition post_tasks :: "libs \<Rightarrow> request \<Rightarrow> db \<Rightarrow> result" where
  "post_tasks L req D =
     (case authenticate L req of
        Inl r \<Rightarrow> \<lparr>reply = r, store = D, session = session_token req\<rparr>
      | Inr uid \<Rightarrow>
          (case insert_task L D uid (body req) of
             Inl e \<Rightarrow> \<lparr>reply = Threw e, store = D, session = session_token req\<rparr>
           | Inr D' \<Rightarrow>
               \<lparr>reply = Responded 200 SuccessBody, store = D', session = session_token req\<rparr>))"

text \<open>\<^verbatim>\<open>UPDATE tasks SET completed = ? WHERE id = ? AND userId = ?\<close>\<close>

definition targets :: "string \<Rightarrow> string \<Rightarrow> int task \<Rightarrow> bool" where
  "targets tid uid t \<longleftrightarrow> task_id t = Some tid \<and> userId t = Some uid"

definition update_completed :: "db \<Rightarrow> int \<Rightarrow> string \<Rightarrow> string \<Rightarrow> db" where
  "update_completed D c tid uid =
     D\<lparr>tasks := map (\<lambda>t. if targets tid uid t then t\<lparr>completed := c\<rparr> else t) (tasks D)\<rparr>"

definition put_task :: "libs \<Rightarrow> request \<Rightarrow> db \<Rightarrow> result" where
  "put_task L req D =
     (case authenticate L req of
        Inl r \<Rightarrow> \<lparr>reply = r, store = D, session = session_token req\<rparr>
      | Inr uid \<Rightarrow>
          \<lparr>reply = Responded 200 SuccessBody,
           store = update_completed D (if truthy (body req ''completed'') then 1 else 0)
                     (params_id req) uid,
           session = session_token req\<rparr>)"

text \<open>\<^verbatim>\<open>DELETE FROM tasks WHERE id = ? AND userId = ?\<close>\<close>

definition delete_where :: "db \<Rightarrow> string \<Rightarrow> string \<Rightarrow> db" where
  "delete_where D tid uid = D\<lparr>tasks := filter (\<lambda>t. \<not> targets tid uid t) (tasks D)\<rparr>"

definition delete_task :: "libs \<Rightarrow> request \<Rightarrow> db \<Rightarrow> result" where
  "delete_task L req D =
     (case authenticate L req of
        Inl r \<Rightarrow> \<lparr>reply = r, store = D, session = session_token req\<rparr>
      | Inr uid \<Rightarrow>
          \<lparr>reply = Responded 200 SuccessBody,
           store = delete_where D (params_id req) uid,
           session = session_token req\<rparr>)"

section \<open>Vocabulary of the properties\<close>

text \<open>A row belongs to the user whose id its \<^verbatim>\<open>userId\<close> column holds.\<close>

definition owned_by :: "string \<Rightarrow> 'c task \<Rightarrow> bool" where
  "owned_by a t \<longleftrightarrow> userId t = Some a"

text \<open>
  The credential as the specification words it: the bearer header when it is present
  and non-empty, otherwise the session token. It is compared with \<open>token_of\<close> below.
\<close>

definition spec_token_of :: "request \<Rightarrow> string option" where
  "spec_token_of req =
     (case authorization req of
        Some h \<Rightarrow> if take 7 h = ''Bearer '' \<and> drop 7 h \<noteq> [] then Some (drop 7 h)
                  else session_token req
      | None \<Rightarrow> session_token req)"

text \<open>
  A header value as the HTTP server hands it to the application: its parser has
  stripped the whitespace at the end of the value, so the value is empty or ends in a
  character other than space and tab. A request is \<open>delivered\<close> when its
  \<^verbatim>\<open>Authorization\<close> header, if it has one, is such a value. The middleware is only ever
  called on delivered requests.
\<close>

definition trimmed :: "string \<Rightarrow> bool" where
  "trimmed h \<longleftrightarrow> h = [] \<or> (last h \<noteq> CHR '' '' \<and> last h \<noteq> CHR 0x09)"

definition delivered :: "request \<Rightarrow> bool" where
  "delivered req = (case authorization req of None \<Rightarrow> True | Some h \<Rightarrow> trimmed h)"

section \<open>A small instance\<close>

text \<open>
  Concrete libraries, a concrete store and concrete requests, on which the theorems
  below are instantiated. The stand-in libraries satisfy \<open>libs_sound\<close>; nothing else
  about them matters.
\<close>

definition demo_libs :: libs where
  "demo_libs =
     \<lparr>bcrypt_hash = (\<lambda>s p. ''$2a$'' @ p),
      bcrypt_compare = (\<lambda>p h. h = ''$2a$'' @ p),
      jwt_sign = (\<lambda>t u. ''jwt.'' @ u),
      jwt_verify = (\<lambda>tok. if take 4 tok = ''jwt.'' then Some (drop 4 tok) else None),
      real_text = (\<lambda>r. ''0.0'')\<rparr>"

definition demo_entropy :: entropy where
  "demo_entropy = \<lparr>random_id = ''k3j9x0q2m1a'', salt = ''$2a$10$'', now = 1700000000\<rparr>"

definition json_object :: "(string \<times> jsval) list \<Rightarrow> body" where
  "json_object kvs f = (case map_of kvs f of Some v \<Rightarrow> v | None \<Rightarrow> JUndefined)"

definition bearer :: "string \<Rightarrow> body \<Rightarrow> string \<Rightarrow> request" where
  "bearer tok b pid =
     \<lparr>authorization = Some (''Bearer '' @ tok), session_token = None, body = b, params_id = pid\<rparr>"

definition anonymous :: "body \<Rightarrow> request" where
  "anonymous b = \<lparr>authorization = None, session_token = None, body = b, params_id = []\<rparr>"

definition ana :: user_row where
  "ana = \<lparr>user_id = ''u1'', email = ''ana@x.com'', password = ''$2a$secret'',
          name = Some ''Ana'', isPremium = 0, brandName = None, logoUrl = None,
          primaryColor = Some ''#059669'', customDomain = None\<rparr>"

definition bob :: user_row where
  "bob = \<lparr>user_id = ''u2'', email = ''bob@x.com'', password = ''$2a$hunter2'',
          name = Some ''Bob'', isPremium = 0, brandName = None, logoUrl = None,
          primaryColor = Some ''#059669'', customDomain = None\<rparr>"

definition demo_task :: "string \<Rightarrow> string \<Rightarrow> string \<Rightarrow> string option \<Rightarrow> int task" where
  "demo_task tid uid txt due =
     \<lparr>task_id = Some tid, userId = Some uid, task_text = txt, completed = 0,
      priority = Some ''low'', dueDate = due, googleEventId = None,
      reminderType = Some ''none'', reminderTiming = Some ''1h'', contactInfo = Some []\<rparr>"

definition demo_store :: db where
  "demo_store =
     \<lparr>users = [ana, bob],
      tasks = [demo_task ''t1'' ''u1'' ''write report'' (Some ''2024-05-02T10:00''),
               demo_task ''t2'' ''u1'' ''call bank'' None,
               demo_task ''t3'' ''u2'' ''buy milk'' (Some ''2024-05-01T09:00'')]\<rparr>"

definition new_task_body :: body where
  "new_task_body =
     json_object
       [(''id'', JStr ''t9''), (''text'', JStr ''book flights''), (''priority'', JStr ''high''),
        (''dueDate'', JStr ''2024-06-01T08:00''), (''googleEventId'', JStr ''ev1''),
        (''reminderType'', JStr ''email''), (''reminderTiming'', JStr ''24h''),
        (''contactInfo'', JStr ''ana@x.com''), (''completed'', JBool True)]"

text \<open>
  A body whose \<^verbatim>\<open>id\<close> is the empty array and whose \<^verbatim>\<open>priority\<close> is an array of two
  strings, and the row that its insertion by user \<open>u2\<close> stores.
\<close>

definition planted_body :: body where
  "planted_body =
     json_object
       [(''id'', JArr []), (''text'', JStr ''u1''),
        (''priority'', JArr [JStr ''planted by bob'', JStr ''high''])]"

definition planted_row :: "int task" where
  "planted_row =
     \<lparr>task_id = Some ''u2'', userId = Some ''u1'', task_text = ''planted by bob'',
      completed = 0, priority = Some ''high'', dueDate = None, googleEventId = None,
      reminderType = Some ''none'', reminderTiming = Some ''1h'', contactInfo = Some []\<rparr>"

section \<open>Auxiliary facts\<close>

lemma demo_libs_sound: "libs_sound demo_libs"
  by (simp add: libs_sound_def demo_libs_def)

lemma task_json_userId [simp]: "userId (task_json t) = userId t"
  by (simp add: task_json_def)

lemma task_json_dueDate [simp]: "dueDate (task_json t) = dueDate t"
  by (simp add: task_json_def)

lemma authenticate_rejects_401:
  "authenticate L req = Inl r \<Longrightarrow> \<exists>m. r = Responded 401 (ErrorBody m)"
  by (auto simp: authenticate_def split: option.splits if_splits)

lemma filter_map_frame:
  "(\<And>x. x \<in> set xs \<Longrightarrow> P (f x) = P x) \<Longrightarrow> (\<And>x. x \<in> set xs \<Longrightarrow> P x \<Longrightarrow> f x = x) \<Longrightarrow>
   filter P (map f xs) = filter P xs"
  by (induction xs) auto

lemma update_completed_frame:
  "uid \<noteq> a \<Longrightarrow>
   filter (owned_by a) (tasks (update_completed D c tid uid)) = filter (owned_by a) (tasks D)"
  unfolding update_completed_def
  by (simp, rule filter_map_frame) (auto simp: owned_by_def targets_def)

lemma delete_where_frame:
  "uid \<noteq> a \<Longrightarrow>
   filter (owned_by a) (tasks (delete_where D tid uid)) = filter (owned_by a) (tasks D)"
  by (auto simp: delete_where_def owned_by_def targets_def intro!: filter_cong)

text \<open>
  A binding that succeeds yields exactly as many values as the statement has
  placeholders: the cases of \<open>insert_user\<close>, \<open>user_by_email\<close> and \<open>insert_task\<close> for
  a list of any other length are never taken.
\<close>

lemma bind_array_length:
  "length acc \<le> n \<Longrightarrow> bind_array L n xs acc = Inr r \<Longrightarrow> length r \<le> n"
  by (induction L n xs acc rule: bind_array.induct)
     (auto split: sum.splits if_splits)

lemma bind_params_length:
  "length acc \<le> n \<Longrightarrow> bind_params L n args obj acc = Inr r \<Longrightarrow> length r = n"
  by (induction L n args obj acc rule: bind_params.induct)
     (auto split: sum.splits if_splits dest: bind_array_length)

lemma bind_args_length: "bind_args L n args = Inr r \<Longrightarrow> length r = n"
  unfolding bind_args_def by (rule bind_params_length) simp_all

lemma set_select_tasks:
  "set (select_tasks D uid) = {t \<in> set (tasks D). userId t = Some uid}"
  by (auto simp: select_tasks_def)

lemma find_append_new:
  "\<forall>x \<in> set xs. \<not> P x \<Longrightarrow> P y \<Longrightarrow> find P (xs @ [y]) = Some y"
  by (induction xs) auto

lemma find_first_match:
  "find P xs = Some x \<Longrightarrow> x \<in> set xs \<and> P x"
  by (induction xs) (auto split: if_splits)

lemma register_valid:
  assumes "body req ''name'' = JStr n" "n \<noteq> []"
      and "body req ''email'' = JStr e" "e \<noteq> []"
      and "body req ''password'' = JStr p" "p \<noteq> []"
      and "e \<notin> set (map email (users D))" "random_id E \<notin> set (map user_id (users D))"
  shows "register L E req D =
           \<lparr>reply = Responded 200 (AuthBody (random_id E) (jwt_sign L (now E) (random_id E))),
            store = D\<lparr>users := users D @
                 [\<lparr>user_id = random_id E, email = e, password = bcrypt_hash L (salt E) p,
                   name = Some n, isPremium = 0, brandName = None, logoUrl = None,
                   primaryColor = Some ''#059669'', customDomain = None\<rparr>]\<rparr>,
            session = Some (jwt_sign L (now E) (random_id E))\<rparr>"
  using assms
  by (simp add: register_def register_try_def bcrypt_hash_js_def insert_user_def bind_args_def
                Let_def)

section \<open>Isolation between users\<close>

text \<open>
  What a request that does not authenticate as \<open>a\<close> can do, through the list, update
  and delete routes, to the rows whose \<^verbatim>\<open>userId\<close> column holds \<open>a\<close>: nothing.
\<close>

lemma put_task_frame:
  "authenticate L req \<noteq> Inr a \<Longrightarrow>
   filter (owned_by a) (tasks (store (put_task L req D))) = filter (owned_by a) (tasks D)"
  by (cases "authenticate L req") (auto simp: put_task_def update_completed_frame)

lemma delete_task_frame:
  "authenticate L req \<noteq> Inr a \<Longrightarrow>
   filter (owned_by a) (tasks (store (delete_task L req D))) = filter (owned_by a) (tasks D)"
  by (cases "authenticate L req") (auto simp: delete_task_def delete_where_frame)

lemma get_tasks_scoped:
  assumes "authenticate L req \<noteq> Inr a"
      and "reply (get_tasks L req D) = Responded 200 (TasksBody rows)"
  shows "filter (owned_by a) rows = []"
proof (cases "authenticate L req")
  case (Inl r)
  then show ?thesis
    using assms(2) by (auto simp: get_tasks_def dest: authenticate_rejects_401)
next
  case (Inr b)
  with assms(1) have "b \<noteq> a" by auto
  then have "filter (owned_by a) (map task_json (select_tasks D b)) = []"
    by (auto simp: filter_empty_conv owned_by_def set_select_tasks)
  then show ?thesis
    using Inr assms(2) by (simp add: get_tasks_def)
qed

lemma stored_rows_isolated:
  assumes row: "t \<in> set (tasks D)" "userId t = Some a"
      and other: "authenticate L req \<noteq> Inr a"
  shows "t \<in> set (tasks (store (put_task L req D))) \<and>
         t \<in> set (tasks (store (delete_task L req D))) \<and>
         (\<forall>rows. reply (get_tasks L req D) = Responded 200 (TasksBody rows) \<longrightarrow>
            task_json t \<notin> set rows)"
proof -
  note frames = put_task_frame [OF other, of D] delete_task_frame [OF other, of D]
  have mine: "t \<in> set (filter (owned_by a) (tasks D))"
    using row by (simp add: owned_by_def)
  have "t \<in> set (filter (owned_by a) (tasks (store (put_task L req D))))"
       "t \<in> set (filter (owned_by a) (tasks (store (delete_task L req D))))"
    using mine frames by simp_all
  then have kept: "t \<in> set (tasks (store (put_task L req D)))"
                  "t \<in> set (tasks (store (delete_task L req D)))"
    by simp_all
  have unseen: "task_json t \<notin> set rows"
    if "reply (get_tasks L req D) = Responded 200 (TasksBody rows)" for rows
  proof -
    have "filter (owned_by a) rows = []"
      using other that by (rule get_tasks_scoped)
    then show ?thesis
      using row(2) by (auto simp: filter_empty_conv owned_by_def)
  qed
  show ?thesis
    using kept unseen by blast
qed

text \<open>
  So the three routes are scoped by the \<^verbatim>\<open>userId\<close> column. Isolation between the user
  who created a task and everybody else needs more: that the column holds the
  creator. Creation does not guarantee it. The handler writes \<^verbatim>\<open>req.userId\<close> as the
  second argument of \<^verbatim>\<open>.run\<close>, which is the second placeholder only as long as the
  first argument, the \<^verbatim>\<open>id\<close> taken from the body, is one value.
\<close>

text \<open>
  C1 does not hold. Bob (user \<open>u2\<close>), authenticated with his own token, posts
  \<open>planted_body\<close>: \<^verbatim>\<open>id\<close> is \<^verbatim>\<open>[]\<close>, \<^verbatim>\<open>text\<close> is Ana's user id \<open>u1\<close>, \<^verbatim>\<open>priority\<close> is an
  array of two strings. The empty array binds nothing, so Bob's id lands in column
  \<^verbatim>\<open>id\<close> and the \<^verbatim>\<open>text\<close> field in column \<^verbatim>\<open>userId\<close>; the two strings of \<^verbatim>\<open>priority\<close>
  fill \<^verbatim>\<open>text\<close> and \<^verbatim>\<open>priority\<close>. The request is answered 200 and the task Bob created
  is stored as Ana's. Bob's own listing does not show it; Ana's listing returns it,
  Ana's update modifies it and Ana's delete removes it.
\<close>

theorem post_tasks_plants_foreign_row:
  "authenticate demo_libs (bearer ''jwt.u2'' planted_body []) = Inr ''u2'' \<and>
   post_tasks demo_libs (bearer ''jwt.u2'' planted_body []) demo_store
     = \<lparr>reply = Responded 200 SuccessBody,
        store = demo_store\<lparr>tasks := tasks demo_store @ [planted_row]\<rparr>,
        session = None\<rparr> \<and>
   reply (get_tasks demo_libs (bearer ''jwt.u2'' (json_object []) [])
            (demo_store\<lparr>tasks := tasks demo_store @ [planted_row]\<rparr>))
     = Responded 200 (TasksBody
         [task_json (demo_task ''t3'' ''u2'' ''buy milk'' (Some ''2024-05-01T09:00''))]) \<and>
   reply (get_tasks demo_libs (bearer ''jwt.u1'' (json_object []) [])
            (demo_store\<lparr>tasks := tasks demo_store @ [planted_row]\<rparr>))
     = Responded 200 (TasksBody
         [task_json (demo_task ''t2'' ''u1'' ''call bank'' None),
          task_json planted_row,
          task_json (demo_task ''t1'' ''u1'' ''write report'' (Some ''2024-05-02T10:00''))]) \<and>
   tasks (store (put_task demo_libs
            (bearer ''jwt.u1'' (json_object [(''completed'', JBool True)]) ''u2'')
            (demo_store\<lparr>tasks := tasks demo_store @ [planted_row]\<rparr>)))
     = tasks demo_store @ [planted_row\<lparr>completed := 1\<rparr>] \<and>
   tasks (store (delete_task demo_libs (bearer ''jwt.u1'' (json_object []) ''u2'')
            (demo_store\<lparr>tasks := tasks demo_store @ [planted_row]\<rparr>)))
     = tasks demo_store"
proof -
  have bob: "authenticate demo_libs (bearer ''jwt.u2'' b i) = Inr ''u2''" for b i
    by (simp add: authenticate_def token_of_def bearer_def demo_libs_def)
  have ana: "authenticate demo_libs (bearer ''jwt.u1'' b i) = Inr ''u1''" for b i
    by (simp add: authenticate_def token_of_def bearer_def demo_libs_def)
  have bound: "bind_args demo_libs 9
      [planted_body ''id'', JStr ''u2'', planted_body ''text'', planted_body ''priority'',
       planted_body ''dueDate'', planted_body ''googleEventId'',
       js_or (planted_body ''reminderType'') (JStr ''none''),
       js_or (planted_body ''reminderTiming'') (JStr ''1h''),
       js_or (planted_body ''contactInfo'') (JStr [])]
    = Inr [Some ''u2'', Some ''u1'', Some ''planted by bob'', Some ''high'', None, None,
           Some ''none'', Some ''1h'', Some []]"
    by (simp add: bind_args_def planted_body_def json_object_def js_or_def)
  have ins: "insert_task demo_libs demo_store ''u2'' planted_body
               = Inr (demo_store\<lparr>tasks := tasks demo_store @ [planted_row]\<rparr>)"
    unfolding insert_task_def bound
    by (simp add: demo_store_def demo_task_def planted_row_def ana_def bob_def)
  have post: "post_tasks demo_libs (bearer ''jwt.u2'' planted_body []) demo_store
     = \<lparr>reply = Responded 200 SuccessBody,
        store = demo_store\<lparr>tasks := tasks demo_store @ [planted_row]\<rparr>,
        session = None\<rparr>"
    unfolding post_tasks_def bob
    by (simp add: bearer_def ins)
  have list_bob: "reply (get_tasks demo_libs (bearer ''jwt.u2'' (json_object []) [])
            (demo_store\<lparr>tasks := tasks demo_store @ [planted_row]\<rparr>))
     = Responded 200 (TasksBody
         [task_json (demo_task ''t3'' ''u2'' ''buy milk'' (Some ''2024-05-01T09:00''))])"
    unfolding get_tasks_def bob
    by (simp add: select_tasks_def demo_store_def demo_task_def planted_row_def)
  have list_ana: "reply (get_tasks demo_libs (bearer ''jwt.u1'' (json_object []) [])
            (demo_store\<lparr>tasks := tasks demo_store @ [planted_row]\<rparr>))
     = Responded 200 (TasksBody
         [task_json (demo_task ''t2'' ''u1'' ''call bank'' None),
          task_json planted_row,
          task_json (demo_task ''t1'' ''u1'' ''write report'' (Some ''2024-05-02T10:00''))])"
    unfolding get_tasks_def ana
    by (simp add: select_tasks_def demo_store_def demo_task_def planted_row_def)
  have put: "tasks (store (put_task demo_libs
            (bearer ''jwt.u1'' (json_object [(''completed'', JBool True)]) ''u2'')
            (demo_store\<lparr>tasks := tasks demo_store @ [planted_row]\<rparr>)))
     = tasks demo_store @ [planted_row\<lparr>completed := 1\<rparr>]"
    unfolding put_task_def ana
    by (simp add: update_completed_def targets_def bearer_def json_object_def
                  demo_store_def demo_task_def planted_row_def)
  have del: "tasks (store (delete_task demo_libs (bearer ''jwt.u1'' (json_object []) ''u2'')
            (demo_store\<lparr>tasks := tasks demo_store @ [planted_row]\<rparr>)))
     = tasks demo_store"
    unfolding delete_task_def ana
    by (simp add: delete_where_def targets_def bearer_def
                  demo_store_def demo_task_def planted_row_def)
  show ?thesis
    using bob post list_bob list_ana put del by simp
qed

section \<open>Registration, login and the credential channels\<close>

text \<open>
  C2. A registration whose name, email and password are non-empty strings, whose email
  is not yet registered and for which the generated id is new, succeeds with that id;
  a later login with the same email and password then succeeds, answers with the same
  user id and a token that \<open>jwt_verify\<close> accepts as that id, and the token it leaves in
  the session authenticates later requests as that user. The libraries are assumed to
  keep their promises (\<open>libs_sound\<close>), and the signed token is assumed not to be empty.
\<close>

theorem register_then_login:
  assumes libs: "libs_sound L" "\<forall>t u. jwt_sign L t u \<noteq> []"
      and nm: "body req ''name'' = JStr n" "n \<noteq> []"
      and em: "body req ''email'' = JStr e" "e \<noteq> []"
      and pw: "body req ''password'' = JStr p" "p \<noteq> []"
      and fresh: "e \<notin> set (map email (users D))" "random_id E \<notin> set (map user_id (users D))"
      and again: "body req' ''email'' = JStr e" "body req' ''password'' = JStr p"
  shows "\<exists>tok tok'.
           reply (register L E req D) = Responded 200 (AuthBody (random_id E) tok) \<and>
           reply (login L E' req' (store (register L E req D)))
             = Responded 200 (AuthBody (random_id E) tok') \<and>
           jwt_verify L tok' = Some (random_id E) \<and>
           session (login L E' req' (store (register L E req D))) = Some tok' \<and>
           authenticate L \<lparr>authorization = None, session_token = Some tok',
                            body = b, params_id = i\<rparr> = Inr (random_id E) \<and>
           authenticate L \<lparr>authorization = Some (''Bearer '' @ tok'), session_token = s,
                            body = b, params_id = i\<rparr> = Inr (random_id E)"
proof -
  let ?row = "\<lparr>user_id = random_id E, email = e, password = bcrypt_hash L (salt E) p,
                   name = Some n, isPremium = 0, brandName = None, logoUrl = None,
                   primaryColor = Some ''#059669'', customDomain = None\<rparr>"
  let ?tok = "jwt_sign L (now E') (random_id E)"
  have reg: "register L E req D =
           \<lparr>reply = Responded 200 (AuthBody (random_id E) (jwt_sign L (now E) (random_id E))),
            store = D\<lparr>users := users D @ [?row]\<rparr>,
            session = Some (jwt_sign L (now E) (random_id E))\<rparr>"
    using nm em pw fresh by (rule register_valid)
  have "find (\<lambda>u. Some e = Some (email u)) (users D @ [?row]) = Some ?row"
    using fresh(1) by (intro find_append_new) auto
  then have look: "user_by_email L (store (register L E req D)) (JStr e) = Inr (Some ?row)"
    by (simp add: reg user_by_email_def bind_args_def)
  have cmp: "bcrypt_compare L p (bcrypt_hash L (salt E) p)"
    using libs(1) by (simp add: libs_sound_def)
  have log: "login L E' req' (store (register L E req D)) =
           \<lparr>reply = Responded 200 (AuthBody (random_id E) ?tok),
            store = store (register L E req D), session = Some ?tok\<rparr>"
    using look cmp again by (simp add: login_def bcrypt_compare_js_def Let_def)
  have ver: "jwt_verify L ?tok = Some (random_id E)"
    using libs(1) by (simp add: libs_sound_def)
  have ne: "?tok \<noteq> []"
    using libs(2) by simp
  have a1: "authenticate L \<lparr>authorization = None, session_token = Some ?tok,
                            body = b, params_id = i\<rparr> = Inr (random_id E)"
    using ver ne by (simp add: authenticate_def token_of_def)
  have a2: "authenticate L \<lparr>authorization = Some (''Bearer '' @ ?tok), session_token = s,
                            body = b, params_id = i\<rparr> = Inr (random_id E)"
    using ver ne by (simp add: authenticate_def token_of_def)
  show ?thesis
    using reg log ver a1 a2 by simp
qed

theorem register_then_login_witness:
  "libs_sound demo_libs \<and> (\<forall>t u. jwt_sign demo_libs t u \<noteq> []) \<and>
   ''carla@x.com'' \<notin> set (map email (users demo_store)) \<and>
   random_id demo_entropy \<notin> set (map user_id (users demo_store)) \<and>
   (\<exists>tok tok'.
      reply (register demo_libs demo_entropy
               (anonymous (json_object [(''name'', JStr ''Carla''),
                  (''email'', JStr ''carla@x.com''), (''password'', JStr ''s3cret'')]))
               demo_store)
        = Responded 200 (AuthBody (random_id demo_entropy) tok) \<and>
      reply (login demo_libs demo_entropy
               (anonymous (json_object [(''email'', JStr ''carla@x.com''),
                  (''password'', JStr ''s3cret'')]))
               (store (register demo_libs demo_entropy
                  (anonymous (json_object [(''name'', JStr ''Carla''),
                     (''email'', JStr ''carla@x.com''), (''password'', JStr ''s3cret'')]))
                  demo_store)))
        = Responded 200 (AuthBody (random_id demo_entropy) tok') \<and>
      jwt_verify demo_libs tok' = Some (random_id demo_entropy))"
proof -
  let ?req = "anonymous (json_object [(''name'', JStr ''Carla''),
                (''email'', JStr ''carla@x.com''), (''password'', JStr ''s3cret'')])"
  let ?req' = "anonymous (json_object [(''email'', JStr ''carla@x.com''),
                (''password'', JStr ''s3cret'')])"
  have l2: "\<forall>t u. jwt_sign demo_libs t u \<noteq> []"
    by (simp add: demo_libs_def)
  have f1: "body ?req ''name'' = JStr ''Carla''" "''Carla'' \<noteq> []"
    by (simp_all add: anonymous_def json_object_def)
  have f2: "body ?req ''email'' = JStr ''carla@x.com''" "''carla@x.com'' \<noteq> []"
    by (simp_all add: anonymous_def json_object_def)
  have f3: "body ?req ''password'' = JStr ''s3cret''" "''s3cret'' \<noteq> []"
    by (simp_all add: anonymous_def json_object_def)
  have n1: "''carla@x.com'' \<notin> set (map email (users demo_store))"
    by (simp add: demo_store_def ana_def bob_def)
  have n2: "random_id demo_entropy \<notin> set (map user_id (users demo_store))"
    by (simp add: demo_store_def ana_def bob_def demo_entropy_def)
  have g: "body ?req' ''email'' = JStr ''carla@x.com''" "body ?req' ''password'' = JStr ''s3cret''"
    by (simp_all add: anonymous_def json_object_def)
  show ?thesis
    using demo_libs_sound l2 n1 n2
      register_then_login [OF demo_libs_sound l2 f1 f2 f3 n1 n2 g,
        of demo_entropy "body (anonymous (json_object []))" "[]" None]
    by blast
qed

text \<open>
  The middleware's token and the credential as the specification words it differ for
  one header only, the prefix \<^verbatim>\<open>Bearer \<close> with nothing after its space; and that header
  is not a trimmed value.
\<close>

lemma token_of_spec:
  "authorization req \<noteq> Some ''Bearer '' \<Longrightarrow> token_of req = spec_token_of req"
proof (cases "authorization req")
  case None
  then show ?thesis by (simp add: token_of_def spec_token_of_def)
next
  case (Some h)
  assume "authorization req \<noteq> Some ''Bearer ''"
  with Some have ne: "h \<noteq> ''Bearer ''" by simp
  have "drop 7 h \<noteq> []" if "take 7 h = ''Bearer ''"
  proof
    assume "drop 7 h = []"
    then have "take 7 h = h" by simp
    with that ne show False by simp
  qed
  then show ?thesis
    using Some by (auto simp: token_of_def spec_token_of_def)
qed

lemma delivered_not_bare_prefix:
  "delivered req \<Longrightarrow> authorization req \<noteq> Some ''Bearer ''"
  by (auto simp: delivered_def trimmed_def)

text \<open>
  C3. For every request the middleware is given (a delivered request), the token it
  uses is the credential of the specification: the text after \<^verbatim>\<open>Bearer \<close> when the
  header has that prefix and the text is not empty, and then the session plays no
  part; the session token in every other case. When that credential is absent or empty
  the request is answered 401 \<^verbatim>\<open>Unauthorized\<close>; otherwise the outcome is that of verifying
  the credential.
\<close>

theorem credential_channel_priority:
  assumes "delivered req"
  shows "token_of req = spec_token_of req \<and>
         (authorization req = Some h \<and> take 7 h = ''Bearer '' \<and> drop 7 h \<noteq> [] \<longrightarrow>
            token_of req = Some (drop 7 h) \<and>
            authenticate L (req\<lparr>session_token := s\<rparr>) = authenticate L req) \<and>
         (\<not> (\<exists>h'. authorization req = Some h' \<and> take 7 h' = ''Bearer '' \<and> drop 7 h' \<noteq> []) \<longrightarrow>
            token_of req = session_token req) \<and>
         (spec_token_of req = None \<or> spec_token_of req = Some [] \<longrightarrow>
            authenticate L req = Inl (Responded 401 (ErrorBody ''Unauthorized''))) \<and>
         (spec_token_of req = Some tok \<and> tok \<noteq> [] \<longrightarrow>
            authenticate L req =
              (case jwt_verify L tok of
                 Some uid \<Rightarrow> Inr uid
               | None \<Rightarrow> Inl (Responded 401 (ErrorBody ''Invalid token''))))"
proof -
  have same: "token_of req = spec_token_of req"
    using assms by (intro token_of_spec delivered_not_bare_prefix)
  have header: "token_of req = Some (drop 7 h) \<and>
                authenticate L (req\<lparr>session_token := s\<rparr>) = authenticate L req"
    if "authorization req = Some h" "take 7 h = ''Bearer ''"
    using that by (simp add: authenticate_def token_of_def)
  have fallback: "token_of req = session_token req"
    if "\<not> (\<exists>h'. authorization req = Some h' \<and> take 7 h' = ''Bearer '' \<and> drop 7 h' \<noteq> [])"
    using that same by (auto simp: spec_token_of_def split: option.splits)
  have reject: "authenticate L req = Inl (Responded 401 (ErrorBody ''Unauthorized''))"
    if "spec_token_of req = None \<or> spec_token_of req = Some []"
    using that same by (auto simp: authenticate_def)
  have verify: "authenticate L req =
              (case jwt_verify L tok of
                 Some uid \<Rightarrow> Inr uid
               | None \<Rightarrow> Inl (Responded 401 (ErrorBody ''Invalid token'')))"
    if "spec_token_of req = Some tok" "tok \<noteq> []"
    using that same by (simp add: authenticate_def)
  show ?thesis
    using same header fallback reject verify by blast
qed

theorem credential_channel_priority_witness:
  "delivered (bearer ''jwt.u2'' new_task_body []) \<and>
   delivered (anonymous new_task_body) \<and>
   token_of (bearer ''jwt.u2'' new_task_body []) = Some ''jwt.u2'' \<and>
   authenticate demo_libs ((bearer ''jwt.u2'' new_task_body [])\<lparr>session_token := Some ''jwt.u1''\<rparr>)
     = Inr ''u2'' \<and>
   token_of (anonymous new_task_body) = None \<and>
   authenticate demo_libs (anonymous new_task_body)
     = Inl (Responded 401 (ErrorBody ''Unauthorized''))"
proof -
  have d1: "delivered (bearer ''jwt.u2'' new_task_body [])"
    by (simp add: delivered_def trimmed_def bearer_def)
  have d2: "delivered (anonymous new_task_body)"
    by (simp add: delivered_def anonymous_def)
  show ?thesis
    using d1 d2
      credential_channel_priority
        [OF d1, of "''Bearer jwt.u2''" demo_libs "Some ''jwt.u1''" "''jwt.u2''"]
      credential_channel_priority [OF d2, of "[]" demo_libs None "[]"]
    by (simp add: bearer_def anonymous_def spec_token_of_def token_of_def demo_libs_def)
qed

text \<open>
  C4. A registration in which the name, the email or the password is empty or missing
  (falsy) is answered 400 with the validation message. A registration with non-empty
  strings whose email is already in the table is answered 400 with the conflict
  message. Either way the store, and with it every existing user's row, and the session
  are exactly as before.
\<close>

theorem register_rejects:
  "(\<not> truthy (body req ''name'') \<or> \<not> truthy (body req ''email'')
      \<or> \<not> truthy (body req ''password'') \<longrightarrow>
      register L E req D =
        \<lparr>reply = Responded 400 (ErrorBody msg_fields_required),
         store = D, session = session_token req\<rparr>) \<and>
   (body req ''name'' = JStr n \<and> n \<noteq> [] \<and> body req ''email'' = JStr e \<and> e \<noteq> [] \<and>
    body req ''password'' = JStr p \<and> p \<noteq> [] \<and> e \<in> set (map email (users D)) \<longrightarrow>
      register L E req D =
        \<lparr>reply = Responded 400 (ErrorBody msg_email_taken),
         store = D, session = session_token req\<rparr>)"
proof -
  have inc1: "str_includes ''UNIQUE constraint failed: users.id'' ''UNIQUE constraint failed''"
    by simp
  have inc2: "str_includes ''UNIQUE constraint failed: users.email'' ''UNIQUE constraint failed''"
    by simp
  show ?thesis
    using inc1 inc2
    by (auto simp: register_def register_try_def bcrypt_hash_js_def insert_user_def
                   bind_args_def register_catch_def simp del: str_includes.simps)
qed

theorem register_rejects_witness:
  "\<not> truthy (body (anonymous (json_object [(''name'', JStr ''Carla''),
        (''email'', JStr ''carla@x.com''), (''password'', JStr [])])) ''password'') \<and>
   reply (register demo_libs demo_entropy
      (anonymous (json_object [(''name'', JStr ''Carla''),
        (''email'', JStr ''carla@x.com''), (''password'', JStr [])])) demo_store)
     = Responded 400 (ErrorBody msg_fields_required) \<and>
   ''ana@x.com'' \<in> set (map email (users demo_store)) \<and>
   register demo_libs demo_entropy
      (anonymous (json_object [(''name'', JStr ''Impostor''),
        (''email'', JStr ''ana@x.com''), (''password'', JStr ''guess'')])) demo_store
     = \<lparr>reply = Responded 400 (ErrorBody msg_email_taken), store = demo_store, session = None\<rparr>"
  using register_rejects
          [of "anonymous (json_object [(''name'', JStr ''Carla''),
                 (''email'', JStr ''carla@x.com''), (''password'', JStr [])])"
              demo_libs demo_entropy demo_store "[]" "[]" "[]"]
        register_rejects
          [of "anonymous (json_object [(''name'', JStr ''Impostor''),
                 (''email'', JStr ''ana@x.com''), (''password'', JStr ''guess'')])"
              demo_libs demo_entropy demo_store "''Impostor''" "''ana@x.com''" "''guess''"]
  by (simp add: anonymous_def json_object_def demo_store_def ana_def bob_def)

text \<open>
  Login failures. As long as the password sent is a string, a login whose email is not
  registered and a login whose email is registered but whose password matches no
  account of that email get the same reply: status 401 with the one message
  \<open>msg_bad_credentials\<close>. Neither changes the store or the session.
\<close>

lemma login_failure_generic:
  assumes unknown: "body req1 ''email'' = JStr e1" "e1 \<notin> set (map email (users D))"
      and known: "body req2 ''email'' = JStr e2" "e2 \<in> set (map email (users D))"
      and wrong: "body req2 ''password'' = JStr p2"
                 "\<forall>u \<in> set (users D). email u = e2 \<longrightarrow> \<not> bcrypt_compare L p2 (password u)"
  shows "reply (login L E1 req1 D) = Responded 401 (ErrorBody msg_bad_credentials) \<and>
         reply (login L E2 req2 D) = reply (login L E1 req1 D) \<and>
         store (login L E1 req1 D) = D \<and> store (login L E2 req2 D) = D \<and>
         session (login L E1 req1 D) = session_token req1 \<and>
         session (login L E2 req2 D) = session_token req2"
proof -
  have "find (\<lambda>u. Some e1 = Some (email u)) (users D) = None"
    using unknown(2) by (auto simp: find_None_iff)
  then have l1: "login L E1 req1 D = \<lparr>reply = Responded 401 (ErrorBody msg_bad_credentials),
           store = D, session = session_token req1\<rparr>"
    using unknown(1) by (simp add: login_def user_by_email_def bind_args_def)
  obtain u where u: "find (\<lambda>u. Some e2 = Some (email u)) (users D) = Some u"
    using known(2) by (cases "find (\<lambda>u. Some e2 = Some (email u)) (users D)")
                       (auto simp: find_None_iff)
  then have "u \<in> set (users D) \<and> email u = e2"
    by (auto dest: find_first_match)
  then have "\<not> bcrypt_compare L p2 (password u)"
    using wrong(2) by blast
  then have l2: "login L E2 req2 D = \<lparr>reply = Responded 401 (ErrorBody msg_bad_credentials),
           store = D, session = session_token req2\<rparr>"
    using known(1) wrong(1) u by (simp add: login_def user_by_email_def bind_args_def bcrypt_compare_js_def)
  show ?thesis by (simp add: l1 l2)
qed

lemma login_failure_generic_example:
  "''nobody@x.com'' \<notin> set (map email (users demo_store)) \<and>
   ''ana@x.com'' \<in> set (map email (users demo_store)) \<and>
   \<not> (\<exists>u \<in> set (users demo_store).
        email u = ''ana@x.com'' \<and> bcrypt_compare demo_libs ''guess'' (password u)) \<and>
   reply (login demo_libs demo_entropy
            (anonymous (json_object [(''email'', JStr ''nobody@x.com''),
               (''password'', JStr ''guess'')])) demo_store)
     = Responded 401 (ErrorBody msg_bad_credentials) \<and>
   reply (login demo_libs demo_entropy
            (anonymous (json_object [(''email'', JStr ''ana@x.com''),
               (''password'', JStr ''guess'')])) demo_store)
     = reply (login demo_libs demo_entropy
            (anonymous (json_object [(''email'', JStr ''nobody@x.com''),
               (''password'', JStr ''guess'')])) demo_store)"
proof -
  let ?r1 = "anonymous (json_object [(''email'', JStr ''nobody@x.com''),
               (''password'', JStr ''guess'')])"
  let ?r2 = "anonymous (json_object [(''email'', JStr ''ana@x.com''),
               (''password'', JStr ''guess'')])"
  have u1: "body ?r1 ''email'' = JStr ''nobody@x.com''"
    by (simp add: anonymous_def json_object_def)
  have u2: "''nobody@x.com'' \<notin> set (map email (users demo_store))"
    by (simp add: demo_store_def ana_def bob_def)
  have k1: "body ?r2 ''email'' = JStr ''ana@x.com''"
    by (simp add: anonymous_def json_object_def)
  have k2: "''ana@x.com'' \<in> set (map email (users demo_store))"
    by (simp add: demo_store_def ana_def bob_def)
  have w1: "body ?r2 ''password'' = JStr ''guess''"
    by (simp add: anonymous_def json_object_def)
  have w2: "\<forall>u \<in> set (users demo_store).
      email u = ''ana@x.com'' \<longrightarrow> \<not> bcrypt_compare demo_libs ''guess'' (password u)"
    by (simp add: demo_store_def ana_def bob_def demo_libs_def)
  show ?thesis
    using u2 k2 w2 login_failure_generic [OF u1 u2 k1 k2 w1 w2, of demo_entropy demo_entropy]
    by simp
qed

text \<open>
  C10 does not hold of every login attempt. Two logins that send no password at all, one
  for an email nobody registered and one for Ana's: the first is answered with the
  generic 401; for the second the account is found, \<^verbatim>\<open>bcrypt.compare\<close> is called on
  \<^verbatim>\<open>undefined\<close> and rejects, and the exception leaves the handler instead of the 401.
  The two replies differ, and the difference tells the caller that Ana's email is
  registered.
\<close>

theorem login_missing_password_distinguishes:
  "reply (login demo_libs demo_entropy
            (anonymous (json_object [(''email'', JStr ''nobody@x.com'')])) demo_store)
     = Responded 401 (ErrorBody msg_bad_credentials) \<and>
   reply (login demo_libs demo_entropy
            (anonymous (json_object [(''email'', JStr ''ana@x.com'')])) demo_store)
     = Threw (Error ''Illegal arguments: undefined, string'') \<and>
   reply (login demo_libs demo_entropy
            (anonymous (json_object [(''email'', JStr ''ana@x.com'')])) demo_store)
     \<noteq> reply (login demo_libs demo_entropy
            (anonymous (json_object [(''email'', JStr ''nobody@x.com'')])) demo_store)"
  by (simp add: login_def user_by_email_def bind_args_def bcrypt_compare_js_def anonymous_def
                json_object_def demo_store_def ana_def bob_def)

section \<open>Errors at the handler boundary\<close>

text \<open>
  Registration wraps its work in \<^verbatim>\<open>try\<close>/\<^verbatim>\<open>catch\<close>: whatever the request and the
  store, it answers with a status and a JSON body.
\<close>

lemma register_always_responds:
  "\<exists>status pl. reply (register L E req D) = Responded status pl"
  by (auto simp: register_def register_try_def register_catch_def Let_def
           split: sum.splits)

text \<open>
  Task creation does not: every error of the \<^verbatim>\<open>INSERT\<close> leaves the handler as an
  exception, and the handler sends no reply of its own.
\<close>

lemma post_tasks_escapes:
  "authenticate L req = Inr uid \<Longrightarrow> insert_task L D uid (body req) = Inl e \<Longrightarrow>
   post_tasks L req D = \<lparr>reply = Threw e, store = D, session = session_token req\<rparr>"
  by (simp add: post_tasks_def)

text \<open>
  Nor does login: for a registered email and a password that is not a string,
  \<^verbatim>\<open>bcrypt.compare\<close> rejects and the rejection leaves the handler.
\<close>

lemma login_escapes:
  "body req ''email'' = JStr e \<Longrightarrow> e \<in> set (map email (users D)) \<Longrightarrow>
   (\<forall>p. body req ''password'' \<noteq> JStr p) \<Longrightarrow>
   \<exists>m. reply (login L E req D) = Threw (Error m)"
proof -
  assume em: "body req ''email'' = JStr e" and reg: "e \<in> set (map email (users D))"
     and pw: "\<forall>p. body req ''password'' \<noteq> JStr p"
  obtain u where "find (\<lambda>u. Some e = Some (email u)) (users D) = Some u"
    using reg by (cases "find (\<lambda>u. Some e = Some (email u)) (users D)")
                  (auto simp: find_None_iff)
  then show ?thesis
    using em pw
    by (cases "body req ''password''")
       (simp_all add: login_def user_by_email_def bind_args_def bcrypt_compare_js_def)
qed

text \<open>
  C5 does not hold of task creation. Bob, authenticated, posts a task whose id \<open>t1\<close> is
  already in the table, and then a task without a \<^verbatim>\<open>text\<close>: each time the engine's
  constraint error leaves the handler uncaught, where registration would have answered
  with a JSON error body.
\<close>

theorem post_tasks_error_escapes:
  "reply (post_tasks demo_libs
            (bearer ''jwt.u2'' (json_object [(''id'', JStr ''t1''), (''text'', JStr ''buy bread'')]) [])
            demo_store)
     = Threw (SqliteError ''UNIQUE constraint failed: tasks.id'') \<and>
   reply (post_tasks demo_libs
            (bearer ''jwt.u2'' (json_object [(''id'', JStr ''t7'')]) [])
            demo_store)
     = Threw (SqliteError ''NOT NULL constraint failed: tasks.text'')"
  by (simp add: post_tasks_def insert_task_def bind_args_def js_or_def authenticate_def
                token_of_def bearer_def json_object_def demo_libs_def demo_store_def
                demo_task_def ana_def bob_def)

section \<open>Listing, creating, updating and deleting tasks\<close>

text \<open>
  The order in which due dates are compared, spelled out: no due date is below
  everything, and two due dates compare as texts, byte by byte, a proper prefix first.
  It is the order of the texts, not of the moments they may denote.
\<close>

lemma due_date_order:
  "None \<le> (x :: string option)"
  "\<not> Some s \<le> (None :: string option)"
  "Some s \<le> Some s' \<longleftrightarrow> s \<le> s'"
  "''2024-05-01T09:00'' \<le> ''2024-05-02T10:00''"
  "''2024-05-02'' \<le> ''2024-05-02T10:00''"
  "''2024-10-01'' \<le> ''2024-9-30''"
  by simp_all

text \<open>
  C6. For an authenticated user the list endpoint answers 200 with exactly the rows of
  that user (as a multiset: each row once, none missing, none added), with
  \<^verbatim>\<open>completed\<close> as a boolean, in ascending order of due date. The order on due dates is
  the one of \<open>string option\<close>: a task without due date comes before every task with
  one (nulls first), and due dates compare as byte strings.
\<close>

theorem list_sorted_by_due_date:
  assumes "authenticate L req = Inr uid"
  shows "\<exists>rows. reply (get_tasks L req D) = Responded 200 (TasksBody rows) \<and>
           mset rows = mset (map task_json (filter (owned_by uid) (tasks D))) \<and>
           sorted (map dueDate rows) \<and>
           (\<forall>i j. i < j \<and> j < length rows \<and> dueDate (rows ! j) = None \<longrightarrow>
                  dueDate (rows ! i) = None)"
proof -
  let ?rows = "map task_json (select_tasks D uid)"
  have r: "reply (get_tasks L req D) = Responded 200 (TasksBody ?rows)"
    using assms by (simp add: get_tasks_def)
  have "owned_by uid = (\<lambda>t::int task. userId t = Some uid)"
    by (simp add: owned_by_def fun_eq_iff)
  then have m: "mset ?rows = mset (map task_json (filter (owned_by uid) (tasks D)))"
    by (simp add: select_tasks_def)
  have e: "map dueDate ?rows = map dueDate (select_tasks D uid)"
    by (simp add: comp_def)
  have s: "sorted (map dueDate ?rows)"
    unfolding e by (simp add: select_tasks_def)
  have n: "dueDate (?rows ! i) = None"
    if "i < j" "j < length ?rows" "dueDate (?rows ! j) = None" for i j
  proof -
    have "map dueDate ?rows ! i \<le> map dueDate ?rows ! j"
      using s that by (intro sorted_nth_mono) auto
    then have "dueDate (?rows ! i) \<le> dueDate (?rows ! j)"
      using that by simp
    then show ?thesis
      using that(3) by (simp add: less_eq_option_None_is_None)
  qed
  show ?thesis
    using r m s n by blast
qed

theorem list_sorted_by_due_date_witness:
  "authenticate demo_libs (bearer ''jwt.u1'' (json_object []) []) = Inr ''u1'' \<and>
   (\<exists>rows. reply (get_tasks demo_libs (bearer ''jwt.u1'' (json_object []) []) demo_store)
              = Responded 200 (TasksBody rows) \<and>
           mset rows = mset (map task_json (filter (owned_by ''u1'') (tasks demo_store))) \<and>
           sorted (map dueDate rows))"
proof -
  have h: "authenticate demo_libs (bearer ''jwt.u1'' (json_object []) []) = Inr ''u1''"
    by (simp add: authenticate_def token_of_def bearer_def demo_libs_def)
  show ?thesis
    using h list_sorted_by_due_date [OF h, of demo_store] by blast
qed

text \<open>
  On the small store, Ana's listing: the task without due date is first, although it
  was inserted second.
\<close>

lemma list_demo_nulls_first:
  "reply (get_tasks demo_libs (bearer ''jwt.u1'' (json_object []) []) demo_store)
     = Responded 200 (TasksBody
         [task_json (demo_task ''t2'' ''u1'' ''call bank'' None),
          task_json (demo_task ''t1'' ''u1'' ''write report'' (Some ''2024-05-02T10:00''))])"
  by (simp add: get_tasks_def select_tasks_def authenticate_def token_of_def bearer_def
                demo_libs_def demo_store_def demo_task_def)

text \<open>
  C7. An authenticated, existing user posts a task with every field supplied as a
  string (the id new to the table, reminder kind and timing non-empty). The creation
  is answered 200, and a later listing by the same user contains that task with every
  supplied field as it was sent and with \<^verbatim>\<open>completed\<close> the boolean \<open>False\<close>, not the stored
  integer 0. A \<^verbatim>\<open>completed\<close> value in the posted body is not read.
\<close>

theorem create_then_list_roundtrip:
  assumes auth: "authenticate L req = Inr uid" "authenticate L req' = Inr uid"
      and user: "uid \<in> set (map user_id (users D))"
      and new: "Some tid \<notin> set (map task_id (tasks D))"
      and flds: "body req ''id'' = JStr tid" "body req ''text'' = JStr txt"
                "body req ''priority'' = JStr p" "body req ''dueDate'' = JStr d"
                "body req ''googleEventId'' = JStr g"
                "body req ''reminderType'' = JStr rt" "rt \<noteq> []"
                "body req ''reminderTiming'' = JStr tm" "tm \<noteq> []"
                "body req ''contactInfo'' = JStr c"
  shows "reply (post_tasks L req D) = Responded 200 SuccessBody \<and>
         (\<exists>rows. reply (get_tasks L req' (store (post_tasks L req D)))
                    = Responded 200 (TasksBody rows) \<and>
                 \<lparr>task_id = Some tid, userId = Some uid, task_text = txt, completed = False,
                  priority = Some p, dueDate = Some d, googleEventId = Some g,
                  reminderType = Some rt, reminderTiming = Some tm,
                  contactInfo = Some c\<rparr> \<in> set rows)"
proof -
  let ?row = "\<lparr>task_id = Some tid, userId = Some uid, task_text = txt, completed = 0::int,
                priority = Some p, dueDate = Some d, googleEventId = Some g,
                reminderType = Some rt, reminderTiming = Some tm, contactInfo = Some c\<rparr>"
  have "bind_args L 9
             [body req ''id'', JStr uid, body req ''text'', body req ''priority'',
              body req ''dueDate'', body req ''googleEventId'',
              js_or (body req ''reminderType'') (JStr ''none''),
              js_or (body req ''reminderTiming'') (JStr ''1h''),
              js_or (body req ''contactInfo'') (JStr [])]
        = Inr [Some tid, Some uid, Some txt, Some p, Some d, Some g, Some rt, Some tm, Some c]"
    using flds by (simp add: bind_args_def js_or_def)
  moreover have "Some uid \<in> set (map (\<lambda>r. Some (user_id r)) (users D))"
    using user by auto
  ultimately have ins: "insert_task L D uid (body req) = Inr (D\<lparr>tasks := tasks D @ [?row]\<rparr>)"
    using new by (simp add: insert_task_def)
  then have post: "post_tasks L req D =
      \<lparr>reply = Responded 200 SuccessBody, store = D\<lparr>tasks := tasks D @ [?row]\<rparr>,
       session = session_token req\<rparr>"
    using auth(1) by (simp add: post_tasks_def)
  have "?row \<in> set (select_tasks (D\<lparr>tasks := tasks D @ [?row]\<rparr>) uid)"
    by (simp add: set_select_tasks)
  then have "task_json ?row
               \<in> set (map task_json (select_tasks (D\<lparr>tasks := tasks D @ [?row]\<rparr>) uid))"
    by simp
  then show ?thesis
    using post auth(2) by (simp add: get_tasks_def task_json_def)
qed

theorem create_then_list_roundtrip_witness:
  "authenticate demo_libs (bearer ''jwt.u1'' new_task_body []) = Inr ''u1'' \<and>
   ''u1'' \<in> set (map user_id (users demo_store)) \<and>
   Some ''t9'' \<notin> set (map task_id (tasks demo_store)) \<and>
   body (bearer ''jwt.u1'' new_task_body []) ''completed'' = JBool True \<and>
   reply (post_tasks demo_libs (bearer ''jwt.u1'' new_task_body []) demo_store)
     = Responded 200 SuccessBody \<and>
   (\<exists>rows. reply (get_tasks demo_libs (bearer ''jwt.u1'' (json_object []) [])
                    (store (post_tasks demo_libs (bearer ''jwt.u1'' new_task_body []) demo_store)))
              = Responded 200 (TasksBody rows) \<and>
           \<lparr>task_id = Some ''t9'', userId = Some ''u1'', task_text = ''book flights'',
            completed = False, priority = Some ''high'', dueDate = Some ''2024-06-01T08:00'',
            googleEventId = Some ''ev1'', reminderType = Some ''email'',
            reminderTiming = Some ''24h'', contactInfo = Some ''ana@x.com''\<rparr> \<in> set rows)"
proof -
  let ?req = "bearer ''jwt.u1'' new_task_body []"
  let ?req' = "bearer ''jwt.u1'' (json_object []) []"
  have a: "authenticate demo_libs ?req = Inr ''u1''" "authenticate demo_libs ?req' = Inr ''u1''"
    by (simp_all add: authenticate_def token_of_def bearer_def demo_libs_def)
  have u: "''u1'' \<in> set (map user_id (users demo_store))"
    by (simp add: demo_store_def ana_def)
  have n: "Some ''t9'' \<notin> set (map task_id (tasks demo_store))"
    by (simp add: demo_store_def demo_task_def)
  have f: "body ?req ''id'' = JStr ''t9''" "body ?req ''text'' = JStr ''book flights''"
          "body ?req ''priority'' = JStr ''high''" "body ?req ''dueDate'' = JStr ''2024-06-01T08:00''"
          "body ?req ''googleEventId'' = JStr ''ev1''"
          "body ?req ''reminderType'' = JStr ''email''" "''email'' \<noteq> []"
          "body ?req ''reminderTiming'' = JStr ''24h''" "''24h'' \<noteq> []"
          "body ?req ''contactInfo'' = JStr ''ana@x.com''"
    by (simp_all add: bearer_def new_task_body_def json_object_def)
  have c: "body ?req ''completed'' = JBool True"
    by (simp add: bearer_def new_task_body_def json_object_def)
  show ?thesis
    using a(1) u n c create_then_list_roundtrip [OF a u n f]
    by blast
qed

text \<open>
  C8. For an authenticated caller the update endpoint always answers 200 success. It
  leaves the users table, the number and the order of the task rows as they were; a row
  after the update differs from the row before it in at most the completion flag, and a
  row whose id is not the requested one, or whose owner is not the caller, does not
  differ at all. When no row has both the requested id and the caller as owner, the
  store after the update is the store before it.
\<close>

theorem put_task_only_completed:
  assumes "authenticate L req = Inr uid"
  shows "reply (put_task L req D) = Responded 200 SuccessBody \<and>
         users (store (put_task L req D)) = users D \<and>
         length (tasks (store (put_task L req D))) = length (tasks D) \<and>
         (\<forall>i < length (tasks D).
            (tasks (store (put_task L req D)) ! i)\<lparr>completed := 0\<rparr>
              = (tasks D ! i)\<lparr>completed := 0\<rparr> \<and>
            (\<not> (task_id (tasks D ! i) = Some (params_id req) \<and> userId (tasks D ! i) = Some uid)
               \<longrightarrow> tasks (store (put_task L req D)) ! i = tasks D ! i)) \<and>
         ((\<forall>t \<in> set (tasks D). \<not> (task_id t = Some (params_id req) \<and> userId t = Some uid))
            \<longrightarrow> store (put_task L req D) = D)"
proof -
  have nop: "map (\<lambda>t. if task_id t = Some tid \<and> userId t = Some uid
                       then t\<lparr>completed := c\<rparr> else t) xs = xs"
    if "\<forall>t \<in> set xs. task_id t = Some tid \<longrightarrow> userId t \<noteq> Some uid"
    for tid c and xs :: "int task list"
    using that by (induction xs) auto
  show ?thesis
    using assms by (auto simp: put_task_def update_completed_def targets_def nop)
qed

theorem put_task_only_completed_witness:
  "authenticate demo_libs (bearer ''jwt.u2'' (json_object [(''completed'', JBool True)]) ''t1'')
     = Inr ''u2'' \<and>
   \<not> (\<exists>t \<in> set (tasks demo_store). task_id t = Some ''t1'' \<and> userId t = Some ''u2'') \<and>
   reply (put_task demo_libs
            (bearer ''jwt.u2'' (json_object [(''completed'', JBool True)]) ''t1'') demo_store)
     = Responded 200 SuccessBody \<and>
   store (put_task demo_libs
            (bearer ''jwt.u2'' (json_object [(''completed'', JBool True)]) ''t1'') demo_store)
     = demo_store"
proof -
  let ?req = "bearer ''jwt.u2'' (json_object [(''completed'', JBool True)]) ''t1''"
  have h: "authenticate demo_libs ?req = Inr ''u2''"
    by (simp add: authenticate_def token_of_def bearer_def demo_libs_def)
  have p: "params_id ?req = ''t1''"
    by (simp add: bearer_def)
  have n: "\<forall>t \<in> set (tasks demo_store). \<not> (task_id t = Some ''t1'' \<and> userId t = Some ''u2'')"
    by (simp add: demo_store_def demo_task_def)
  show ?thesis
    using h n put_task_only_completed [OF h, of demo_store] unfolding p by blast
qed

text \<open>
  C9. For an authenticated caller the delete endpoint always answers 200 success, with
  no existence check. When no row has both the requested id and the caller as owner
  (the id was never used, was deleted before, or belongs to someone else) the store is
  unchanged. After a delete no such row is left, and deleting a second time gives the
  same reply, store and session as deleting once.
\<close>

theorem delete_task_idempotent:
  assumes "authenticate L req = Inr uid"
  shows "reply (delete_task L req D) = Responded 200 SuccessBody \<and>
         ((\<forall>t \<in> set (tasks D). \<not> (task_id t = Some (params_id req) \<and> userId t = Some uid))
            \<longrightarrow> store (delete_task L req D) = D) \<and>
         (\<forall>t \<in> set (tasks (store (delete_task L req D))).
            \<not> (task_id t = Some (params_id req) \<and> userId t = Some uid)) \<and>
         delete_task L req (store (delete_task L req D)) = delete_task L req D"
proof -
  have nop: "filter (\<lambda>t. task_id t = Some tid \<longrightarrow> userId t \<noteq> Some uid) xs = xs"
    if "\<forall>t \<in> set xs. task_id t = Some tid \<longrightarrow> userId t \<noteq> Some uid"
    for tid and xs :: "int task list"
    using that by (induction xs) auto
  show ?thesis
    using assms by (auto simp: delete_task_def delete_where_def targets_def nop)
qed

theorem delete_task_idempotent_witness:
  "authenticate demo_libs (bearer ''jwt.u1'' (json_object []) ''t1'') = Inr ''u1'' \<and>
   reply (delete_task demo_libs (bearer ''jwt.u1'' (json_object []) ''t1'') demo_store)
     = Responded 200 SuccessBody \<and>
   delete_task demo_libs (bearer ''jwt.u1'' (json_object []) ''t1'')
     (store (delete_task demo_libs (bearer ''jwt.u1'' (json_object []) ''t1'') demo_store))
     = delete_task demo_libs (bearer ''jwt.u1'' (json_object []) ''t1'') demo_store \<and>
   tasks (store (delete_task demo_libs (bearer ''jwt.u1'' (json_object []) ''t1'') demo_store))
     = [demo_task ''t2'' ''u1'' ''call bank'' None,
        demo_task ''t3'' ''u2'' ''buy milk'' (Some ''2024-05-01T09:00'')]"
proof -
  let ?req = "bearer ''jwt.u1'' (json_object []) ''t1''"
  have h: "authenticate demo_libs ?req = Inr ''u1''"
    by (simp add: authenticate_def token_of_def bearer_def demo_libs_def)
  have t: "tasks (store (delete_task demo_libs ?req demo_store))
     = [demo_task ''t2'' ''u1'' ''call bank'' None,
        demo_task ''t3'' ''u2'' ''buy milk'' (Some ''2024-05-01T09:00'')]"
    unfolding delete_task_def h
    by (simp add: delete_where_def targets_def bearer_def demo_store_def demo_task_def)
  show ?thesis
    using h t delete_task_idempotent [OF h, of demo_store] by blast
qed

end
